theory Spec2Isabelle
  imports Complex_Main "HOL-Library.Multiset" "HOL-Library.Log_Nat"
begin

section \<open>JavaScript numbers\<close>

text \<open>
  A JavaScript number is an IEEE 754 double. The model takes a finite double as the
  real number it denotes and rounds the exact result of every arithmetic operation to
  the nearest double, a tie going to the even significand, as the language prescribes.
  \<open>binade x\<close> is the exponent \<open>e\<close> with \<open>2 ^ e \<le> \<bar>x\<bar> < 2 ^ (e + 1)\<close>; a double has 53
  significant bits, so the doubles of that binade are the multiples of \<open>2 ^ (e - 52)\<close>.
  The exponent range is not bounded: infinities, NaN and subnormal results are not
  modelled. A decimal literal of the source is the double nearest to it:
  \<^verbatim>\<open>0.1\<close> is \<open>roundDouble (1 / 10)\<close>.
\<close>

definition binade :: "real \<Rightarrow> int" where
  "binade x =
     (let a = \<bar>x\<bar> in
      if 1 \<le> a then bitlen \<lfloor>a\<rfloor> - 1
      else (let k = bitlen \<lfloor>1 / a\<rfloor> - 1 in if a * 2 ^ nat k = 1 then - k else - k - 1))"

definition roundTiesToEven :: "real \<Rightarrow> int" where
  "roundTiesToEven x =
     (let f = \<lfloor>x\<rfloor>; r = x - of_int f
      in if r < 1 / 2 then f else if 1 / 2 < r then f + 1 else if even f then f else f + 1)"

definition roundDouble :: "real \<Rightarrow> real" where
  "roundDouble x =
     (if x = 0 then 0
      else (let u = 2 powi (binade x - 52) in of_int (roundTiesToEven (x / u)) * u))"

text \<open>The operators \<^verbatim>\<open>+\<close>, \<^verbatim>\<open>-\<close> and \<^verbatim>\<open>*\<close> on numbers.\<close>

definition js_add :: "real \<Rightarrow> real \<Rightarrow> real" where
  "js_add x y = roundDouble (x + y)"

definition js_sub :: "real \<Rightarrow> real \<Rightarrow> real" where
  "js_sub x y = roundDouble (x - y)"

definition js_mul :: "real \<Rightarrow> real \<Rightarrow> real" where
  "js_mul x y = roundDouble (x * y)"

text \<open>
  \<^verbatim>\<open>Math.round\<close> gives the integer nearest to its argument, a half going up. It works
  on the exact value of the double it is given.
\<close>

definition Math_round :: "real \<Rightarrow> int" where
  "Math_round x = \<lfloor>x + 1 / 2\<rfloor>"

section \<open>The SM-2 scheduler\<close>

text \<open>
  The scheduler is the function \<^verbatim>\<open>calculateSM2(quality, repetitions, easeFactor, interval)\<close>
  of \<^verbatim>\<open>lib/spacedRepetition.ts\<close>. The quality and the ease factor are numbers. The
  repetition count and the interval are the INTEGER columns of ReviewSchedule, hence
  integers, which doubles hold exactly. The source reads the clock with
  \<^verbatim>\<open>new Date()\<close>; the model takes that reading as the argument \<open>now\<close>, in milliseconds
  since the epoch. The source writes \<^verbatim>\<open>5 - quality\<close> twice; both are the same double
  \<open>d\<close>. \<^verbatim>\<open>Math.max\<close> and \<^verbatim>\<open>Math.min\<close> return one of their arguments and round
  nothing.
\<close>

record SM2Result =
  easeFactor :: real
  interval :: int
  repetitions :: int
  nextReviewDate :: int

definition msPerDay :: int where
  "msPerDay = 86400000"

text \<open>\<^verbatim>\<open>d.setDate(d.getDate() + n)\<close>: the instant \<open>n\<close> calendar days later.\<close>

definition addDays :: "int \<Rightarrow> int \<Rightarrow> int" where
  "addDays d n = d + n * msPerDay"

text \<open>
  The first statement of the function,
  \<^verbatim>\<open>let newEF = easeFactor + (0.1 - (5 - quality) * (0.08 + (5 - quality) * 0.02))\<close>.
\<close>

definition newEF_sum :: "real \<Rightarrow> real \<Rightarrow> real" where
  "newEF_sum ef quality =
     (let d = js_sub 5 quality
      in js_add ef
           (js_sub (roundDouble (1 / 10))
              (js_mul d (js_add (roundDouble (8 / 100)) (js_mul d (roundDouble (2 / 100)))))))"

definition calculateSM2 :: "int \<Rightarrow> real \<Rightarrow> int \<Rightarrow> real \<Rightarrow> int \<Rightarrow> SM2Result" where
  "calculateSM2 now quality reps ef iv =
     (let newEF0 = newEF_sum ef quality;
          newEF = max (roundDouble (13 / 10)) (min (5 / 2) newEF0);
          newRepetitions = (if quality < 3 then 0 else reps + 1);
          newInterval =
            (if quality < 3 then 1
             else if newRepetitions = 1 then 1
             else if newRepetitions = 2 then 6
             else Math_round (js_mul (of_int iv) newEF))
      in \<lparr>easeFactor = newEF, interval = newInterval, repetitions = newRepetitions,
          nextReviewDate = addDays now newInterval\<rparr>)"

text \<open>
  The specification's wording of the ease-factor update, kept apart from the code above
  so that the two can be compared: the sum of the prior ease factor and the quality
  delta, with a floor of 1.3 and no ceiling, over the real numbers the specification
  names.
\<close>

definition spec_delta :: "real \<Rightarrow> real" where
  "spec_delta quality = 1 / 10 - (5 - quality) * (8 / 100 + (5 - quality) * (2 / 100))"

definition spec_newEase :: "real \<Rightarrow> real \<Rightarrow> real" where
  "spec_newEase ef quality = max (13 / 10) (ef + spec_delta quality)"

section \<open>The persisted entities\<close>

text \<open>
  The tables of \<^verbatim>\<open>prisma/migrations/20251224154825_init/migration.sql\<close> that the review
  handler and the due-card query touch, with the columns they read or write. Timestamps
  are milliseconds since the epoch. ReviewSchedule is unique per flashcardId, DailyStat
  per (userId, date) and StudyStreak per userId, so these tables are maps from their
  unique keys; ReviewHistory is append-only and Flashcard is kept in table order. The
  quality of a ReviewHistory row is an INTEGER column.
\<close>

record flashcard =
  fc_id :: int
  fc_userId :: int

record reviewSchedule =
  rs_easeFactor :: real
  rs_interval :: int
  rs_repetitions :: int
  rs_nextReviewDate :: int
  rs_lastReviewedAt :: "int option"
  rs_userId :: int
  rs_flashcardId :: int

record reviewHistory =
  rh_flashcardId :: int
  rh_userId :: int
  rh_quality :: int
  rh_wasCorrect :: bool
  rh_responseTimeSeconds :: "int option"
  easeFactorBefore :: real
  easeFactorAfter :: real
  intervalBefore :: int
  intervalAfter :: int

record dailyStat =
  ds_userId :: int
  ds_date :: int
  cardsReviewed :: int
  cardsLearned :: int
  correctAnswers :: int
  totalAnswers :: int
  studyTimeMinutes :: int

record studyStreak =
  ss_userId :: int
  currentStreak :: int
  longestStreak :: int
  lastStudyDate :: "int option"

record db =
  flashcards :: "flashcard list"
  reviewSchedules :: "int \<rightharpoonup> reviewSchedule"
  reviewHistories :: "reviewHistory list"
  dailyStats :: "(int \<times> int) \<rightharpoonup> dailyStat"
  studyStreaks :: "int \<rightharpoonup> studyStreak"

section \<open>The review handler: POST /api/reviews\<close>

text \<open>The parsed request body \<^verbatim>\<open>{ flashcardId, quality, responseTimeSeconds }\<close>.\<close>

record reviewRequest =
  flashcardId :: int
  quality :: real
  responseTimeSeconds :: "int option"

datatype response =
    Unauthorized_401
  | BadRequest_400
  | NotFound_404
  | InternalServerError_500
  | Ok_200 reviewSchedule

text \<open>
  The operations issued inside \<^verbatim>\<open>prisma.$transaction\<close>. Whether the store carries one
  out is not decided by the handler: the argument \<open>ok\<close> of the functions below says,
  for each operation, whether the store accepts it. A refused operation throws.
\<close>

datatype tx_op = UpdateSchedule | CreateHistory | UpsertDailyStat | FindStreak | WriteStreak

datatype error = StorageFailure tx_op | RecordNotFound | ValidationError

text \<open>\<^verbatim>\<open>d.setHours(0, 0, 0, 0)\<close>, with UTC as the local time zone.\<close>

definition startOfDay :: "int \<Rightarrow> int" where
  "startOfDay t = t - t mod msPerDay"

text \<open>Step 1 of the transaction: \<^verbatim>\<open>tx.reviewSchedule.update\<close>.\<close>

definition tx_reviewSchedule_update ::
  "(tx_op \<Rightarrow> bool) \<Rightarrow> int \<Rightarrow> SM2Result \<Rightarrow> int \<Rightarrow> db \<Rightarrow> error + (reviewSchedule \<times> db)" where
  "tx_reviewSchedule_update ok fid newSchedule now d =
     (if \<not> ok UpdateSchedule then Inl (StorageFailure UpdateSchedule)
      else case reviewSchedules d fid of
        None \<Rightarrow> Inl RecordNotFound
      | Some s \<Rightarrow>
          (let s' = s\<lparr>rs_easeFactor := easeFactor newSchedule,
                      rs_interval := interval newSchedule,
                      rs_repetitions := repetitions newSchedule,
                      rs_nextReviewDate := nextReviewDate newSchedule,
                      rs_lastReviewedAt := Some now\<rparr>
           in Inr (s', d\<lparr>reviewSchedules := (reviewSchedules d)(fid \<mapsto> s')\<rparr>)))"

text \<open>
  Step 2: \<^verbatim>\<open>tx.reviewHistory.create\<close>. The handler builds the \<^verbatim>\<open>data\<close> object from
  JavaScript values: its quality is the number of the request and its wasCorrect is
  \<^verbatim>\<open>quality >= 3\<close>.
\<close>

record reviewHistoryCreateInput =
  ci_flashcardId :: int
  ci_userId :: int
  ci_quality :: real
  ci_wasCorrect :: bool
  ci_responseTimeSeconds :: "int option"
  ci_easeFactorBefore :: real
  ci_easeFactorAfter :: real
  ci_intervalBefore :: int
  ci_intervalAfter :: int

definition reviewHistory_data ::
  "int \<Rightarrow> reviewRequest \<Rightarrow> reviewSchedule \<Rightarrow> SM2Result \<Rightarrow> reviewHistoryCreateInput" where
  "reviewHistory_data uid req schedule newSchedule =
     \<lparr>ci_flashcardId = flashcardId req,
      ci_userId = uid,
      ci_quality = quality req,
      ci_wasCorrect = (quality req \<ge> 3),
      ci_responseTimeSeconds = responseTimeSeconds req,
      ci_easeFactorBefore = rs_easeFactor schedule,
      ci_easeFactorAfter = easeFactor newSchedule,
      ci_intervalBefore = rs_interval schedule,
      ci_intervalAfter = interval newSchedule\<rparr>"

text \<open>
  The quality column is an \<^verbatim>\<open>Int\<close>: the client checks the \<^verbatim>\<open>data\<close> against the
  schema, and \<^verbatim>\<open>create\<close> throws when the number it is given for an \<^verbatim>\<open>Int\<close> is not an
  integer. No row is written then.
\<close>

definition Int_argument :: "real \<Rightarrow> int option" where
  "Int_argument x = (if of_int \<lfloor>x\<rfloor> = x then Some \<lfloor>x\<rfloor> else None)"

definition tx_reviewHistory_create ::
  "(tx_op \<Rightarrow> bool) \<Rightarrow> int \<Rightarrow> reviewRequest \<Rightarrow> reviewSchedule \<Rightarrow> SM2Result \<Rightarrow> db \<Rightarrow> error + db" where
  "tx_reviewHistory_create ok uid req schedule newSchedule d =
     (if \<not> ok CreateHistory then Inl (StorageFailure CreateHistory)
      else
        (let data = reviewHistory_data uid req schedule newSchedule
         in case Int_argument (ci_quality data) of
              None \<Rightarrow> Inl ValidationError
            | Some q \<Rightarrow>
                Inr (d\<lparr>reviewHistories := reviewHistories d @
                       [\<lparr>rh_flashcardId = ci_flashcardId data,
                         rh_userId = ci_userId data,
                         rh_quality = q,
                         rh_wasCorrect = ci_wasCorrect data,
                         rh_responseTimeSeconds = ci_responseTimeSeconds data,
                         easeFactorBefore = ci_easeFactorBefore data,
                         easeFactorAfter = ci_easeFactorAfter data,
                         intervalBefore = ci_intervalBefore data,
                         intervalAfter = ci_intervalAfter data\<rparr>]\<rparr>)))"

text \<open>\<^verbatim>\<open>Math.ceil((responseTimeSeconds || 0) / 60)\<close>.\<close>

definition studyMinutes :: "int option \<Rightarrow> int" where
  "studyMinutes rts = \<lceil>real_of_int (case rts of None \<Rightarrow> 0 | Some t \<Rightarrow> t) / 60\<rceil>"

text \<open>
  Step 3: \<^verbatim>\<open>tx.dailyStat.upsert\<close>. The \<^verbatim>\<open>create\<close> branch names no value for
  cardsLearned, so the column takes its default 0 from the schema.
\<close>

definition tx_dailyStat_upsert ::
  "(tx_op \<Rightarrow> bool) \<Rightarrow> int \<Rightarrow> int \<Rightarrow> reviewRequest \<Rightarrow> db \<Rightarrow> error + db" where
  "tx_dailyStat_upsert ok uid today req d =
     (if \<not> ok UpsertDailyStat then Inl (StorageFailure UpsertDailyStat)
      else
        (let correct = (if quality req \<ge> 3 then 1 else 0);
             minutes = studyMinutes (responseTimeSeconds req);
             row = (case dailyStats d (uid, today) of
                      None \<Rightarrow>
                        \<lparr>ds_userId = uid, ds_date = today, cardsReviewed = 1,
                         cardsLearned = 0, correctAnswers = correct, totalAnswers = 1,
                         studyTimeMinutes = minutes\<rparr>
                    | Some r \<Rightarrow>
                        r\<lparr>cardsReviewed := cardsReviewed r + 1,
                          correctAnswers := correctAnswers r + correct,
                          totalAnswers := totalAnswers r + 1,
                          studyTimeMinutes := studyTimeMinutes r + minutes\<rparr>)
         in Inr (d\<lparr>dailyStats := (dailyStats d)((uid, today) \<mapsto> row)\<rparr>)))"

text \<open>Step 4: \<^verbatim>\<open>tx.studyStreak.findUnique\<close>, then \<^verbatim>\<open>create\<close> or \<^verbatim>\<open>update\<close>.\<close>

definition tx_studyStreak_findUnique ::
  "(tx_op \<Rightarrow> bool) \<Rightarrow> int \<Rightarrow> db \<Rightarrow> error + studyStreak option" where
  "tx_studyStreak_findUnique ok uid d =
     (if \<not> ok FindStreak then Inl (StorageFailure FindStreak) else Inr (studyStreaks d uid))"

text \<open>
  The streak row the handler writes for the day \<open>today\<close>, from the row it found:
  the \<^verbatim>\<open>data\<close> of \<^verbatim>\<open>studyStreak.create\<close> when there is none, of
  \<^verbatim>\<open>studyStreak.update\<close> otherwise. \<^verbatim>\<open>new Date(streak.lastStudyDate || 0)\<close> is the epoch
  when the column is null.
\<close>

definition newCurrentStreak :: "studyStreak \<Rightarrow> int \<Rightarrow> int" where
  "newCurrentStreak streak today =
     (let yesterday = addDays today (- 1);
          lastStudy = startOfDay (case lastStudyDate streak of None \<Rightarrow> 0 | Some t \<Rightarrow> t)
      in if lastStudy = yesterday then currentStreak streak + 1
         else if lastStudy < yesterday then 1
         else currentStreak streak)"

definition studyStreakData :: "int \<Rightarrow> int \<Rightarrow> studyStreak option \<Rightarrow> studyStreak" where
  "studyStreakData uid today found =
     (case found of
        None \<Rightarrow>
          \<lparr>ss_userId = uid, currentStreak = 1, longestStreak = 1, lastStudyDate = Some today\<rparr>
      | Some streak \<Rightarrow>
          streak\<lparr>currentStreak := newCurrentStreak streak today,
                 longestStreak := max (longestStreak streak) (newCurrentStreak streak today),
                 lastStudyDate := Some today\<rparr>)"

definition tx_studyStreak_write ::
  "(tx_op \<Rightarrow> bool) \<Rightarrow> int \<Rightarrow> studyStreak \<Rightarrow> db \<Rightarrow> error + db" where
  "tx_studyStreak_write ok uid row d =
     (if \<not> ok WriteStreak then Inl (StorageFailure WriteStreak)
      else Inr (d\<lparr>studyStreaks := (studyStreaks d)(uid \<mapsto> row)\<rparr>))"

text \<open>The callback handed to \<^verbatim>\<open>prisma.$transaction\<close>: the first throw ends it.\<close>

definition reviewTx ::
  "(tx_op \<Rightarrow> bool) \<Rightarrow> int \<Rightarrow> int \<Rightarrow> reviewRequest \<Rightarrow> reviewSchedule \<Rightarrow> SM2Result \<Rightarrow> db
     \<Rightarrow> error + (reviewSchedule \<times> db)" where
  "reviewTx ok uid now req schedule newSchedule d =
     (case tx_reviewSchedule_update ok (flashcardId req) newSchedule now d of
        Inl e \<Rightarrow> Inl e
      | Inr (updatedSchedule, d1) \<Rightarrow>
     (case tx_reviewHistory_create ok uid req schedule newSchedule d1 of
        Inl e \<Rightarrow> Inl e
      | Inr d2 \<Rightarrow>
     (case tx_dailyStat_upsert ok uid (startOfDay now) req d2 of
        Inl e \<Rightarrow> Inl e
      | Inr d3 \<Rightarrow>
     (case tx_studyStreak_findUnique ok uid d3 of
        Inl e \<Rightarrow> Inl e
      | Inr streak \<Rightarrow>
     (case tx_studyStreak_write ok uid (studyStreakData uid (startOfDay now) streak) d3 of
        Inl e \<Rightarrow> Inl e
      | Inr d4 \<Rightarrow> Inr (updatedSchedule, d4))))))"

text \<open>
  \<^verbatim>\<open>prisma.$transaction(callback)\<close>: the callback runs on the store; when it throws, the
  store is rolled back to where the transaction began and the error is passed on,
  otherwise its writes are committed.
\<close>

definition transaction :: "(db \<Rightarrow> error + ('a \<times> db)) \<Rightarrow> db \<Rightarrow> (error + 'a) \<times> db" where
  "transaction body d =
     (case body d of Inl e \<Rightarrow> (Inl e, d) | Inr (r, d') \<Rightarrow> (Inr r, d'))"

text \<open>
  The handler. \<open>user\<close> is the result of \<^verbatim>\<open>getCurrentUser()\<close> (the user id, or none),
  \<open>now\<close> the clock: every \<^verbatim>\<open>new Date()\<close> of one request reads the same instant. The
  result is the HTTP response and the store afterwards.
\<close>

definition POST ::
  "(tx_op \<Rightarrow> bool) \<Rightarrow> int option \<Rightarrow> int \<Rightarrow> reviewRequest \<Rightarrow> db \<Rightarrow> response \<times> db" where
  "POST ok user now req d =
     (case user of
        None \<Rightarrow> (Unauthorized_401, d)
      | Some uid \<Rightarrow>
          if quality req < 0 \<or> quality req > 5 then (BadRequest_400, d)
          else (case reviewSchedules d (flashcardId req) of
                  None \<Rightarrow> (NotFound_404, d)
                | Some schedule \<Rightarrow>
                    (let newSchedule =
                           calculateSM2 now (quality req) (rs_repetitions schedule)
                             (rs_easeFactor schedule) (rs_interval schedule)
                     in case transaction (reviewTx ok uid now req schedule newSchedule) d of
                          (Inl e, d') \<Rightarrow> (InternalServerError_500, d')
                        | (Inr result, d') \<Rightarrow> (Ok_200 result, d'))))"

section \<open>The due-card query\<close>

text \<open>
  \<^verbatim>\<open>prisma.flashcard.findMany\<close> with
  \<^verbatim>\<open>where: { userId, reviewSchedule: { nextReviewDate: { lte: new Date() } } }\<close> and
  \<^verbatim>\<open>orderBy: { reviewSchedule: { nextReviewDate: 'asc' } }\<close>. The query names one sort
  key, so the store is free in the order of rows with equal keys: an answer is any
  arrangement of the selected rows in which the keys ascend.
\<close>

definition dueWhere :: "db \<Rightarrow> int \<Rightarrow> int \<Rightarrow> flashcard \<Rightarrow> bool" where
  "dueWhere d uid now c =
     (fc_userId c = uid \<and>
      (case reviewSchedules d (fc_id c) of
         None \<Rightarrow> False
       | Some s \<Rightarrow> rs_nextReviewDate s \<le> now))"

definition dueOrderKey :: "db \<Rightarrow> flashcard \<Rightarrow> int" where
  "dueOrderKey d c =
     (case reviewSchedules d (fc_id c) of None \<Rightarrow> 0 | Some s \<Rightarrow> rs_nextReviewDate s)"

definition dueCards_answer :: "db \<Rightarrow> int \<Rightarrow> int \<Rightarrow> flashcard list \<Rightarrow> bool" where
  "dueCards_answer d uid now res =
     (mset res = mset (filter (dueWhere d uid now) (flashcards d)) \<and>
      sorted (map (dueOrderKey d) res))"

text \<open>One such answer: the selected rows in table order, sorted stably by the key.\<close>

definition dueCards :: "db \<Rightarrow> int \<Rightarrow> int \<Rightarrow> flashcard list" where
  "dueCards d uid now = sort_key (dueOrderKey d) (filter (dueWhere d uid now) (flashcards d))"

text \<open>
  The specification's order: by nextReviewDate ascending, and by card identifier among
  cards with the same nextReviewDate.
\<close>

definition spec_dueOrder :: "db \<Rightarrow> flashcard list \<Rightarrow> bool" where
  "spec_dueOrder d res =
     sorted_wrt (\<lambda>a b. dueOrderKey d a < dueOrderKey d b \<or>
                        (dueOrderKey d a = dueOrderKey d b \<and> fc_id a \<le> fc_id b)) res"

section \<open>Concrete stores and requests\<close>

text \<open>
  One user (id 1) with one flashcard (id 1) and its freshly created schedule; a request
  for that card; the same store with a DailyStat row already there for day 0; and a
  store with two cards of user 1 that fall due at the same instant, card 2 stored
  before card 1.
\<close>

definition example_schedule :: reviewSchedule where
  "example_schedule =
     \<lparr>rs_easeFactor = 5 / 2, rs_interval = 1, rs_repetitions = 0,
      rs_nextReviewDate = 0, rs_lastReviewedAt = None, rs_userId = 1, rs_flashcardId = 1\<rparr>"

definition example_db :: db where
  "example_db =
     \<lparr>flashcards = [\<lparr>fc_id = 1, fc_userId = 1\<rparr>],
      reviewSchedules = [1 \<mapsto> example_schedule],
      reviewHistories = [],
      dailyStats = Map.empty,
      studyStreaks = Map.empty\<rparr>"

definition example_request :: "real \<Rightarrow> reviewRequest" where
  "example_request q = \<lparr>flashcardId = 1, quality = q, responseTimeSeconds = Some 90\<rparr>"

definition example_stat :: dailyStat where
  "example_stat =
     \<lparr>ds_userId = 1, ds_date = 0, cardsReviewed = 5, cardsLearned = 3,
      correctAnswers = 4, totalAnswers = 5, studyTimeMinutes = 7\<rparr>"

definition example_db_stat :: db where
  "example_db_stat =
     \<lparr>flashcards = [\<lparr>fc_id = 1, fc_userId = 1\<rparr>],
      reviewSchedules = [1 \<mapsto> example_schedule],
      reviewHistories = [],
      dailyStats = [(1, 0) \<mapsto> example_stat],
      studyStreaks = Map.empty\<rparr>"

definition tied_db :: db where
  "tied_db =
     \<lparr>flashcards = [\<lparr>fc_id = 2, fc_userId = 1\<rparr>, \<lparr>fc_id = 1, fc_userId = 1\<rparr>],
      reviewSchedules =
        [1 \<mapsto> example_schedule, 2 \<mapsto> example_schedule\<lparr>rs_flashcardId := 2\<rparr>],
      reviewHistories = [],
      dailyStats = Map.empty,
      studyStreaks = Map.empty\<rparr>"

section \<open>Facts about the scheduler\<close>

lemma binade_ge_one:
  assumes "1 \<le> \<bar>x\<bar>"
  shows "0 \<le> binade x \<and> 2 powi (binade x) \<le> \<bar>x\<bar>"
proof -
  let ?n = "\<lfloor>\<bar>x\<bar>\<rfloor>"
  have n: "1 \<le> ?n" using assms by simp
  then have b: "1 \<le> bitlen ?n" by (simp add: bitlen_ge_iff_power)
  have "2 ^ nat (bitlen ?n - 1) \<le> ?n" using bitlen_bounds [of ?n] n by simp
  then have "real_of_int (2 ^ nat (bitlen ?n - 1)) \<le> real_of_int ?n" by linarith
  also have "\<dots> \<le> \<bar>x\<bar>" by simp
  finally have "(2::real) ^ nat (bitlen ?n - 1) \<le> \<bar>x\<bar>" by simp
  moreover have "binade x = bitlen ?n - 1" using assms by (simp add: binade_def)
  ultimately show ?thesis using b by (simp add: power_int_def)
qed

lemma roundTiesToEven_ge_floor: "\<lfloor>y\<rfloor> \<le> roundTiesToEven y"
  by (simp add: roundTiesToEven_def Let_def)

lemma roundDouble_ge_one:
  assumes "1 \<le> x"
  shows "1 \<le> roundDouble x"
proof -
  let ?e = "binade x"
  let ?u = "(2::real) powi (?e - 52)"
  have e: "0 \<le> ?e" and lo: "2 powi ?e \<le> x" using binade_ge_one [of x] assms by simp_all
  have u: "0 < ?u" by simp
  have split: "(2::real) powi ?e = 2 ^ 52 * ?u"
    by (simp add: power_int_diff)
  have "2 ^ 52 * ?u \<le> x" using lo split by simp
  then have "(2::real) ^ 52 \<le> x / ?u" using u by (simp add: pos_le_divide_eq)
  then have "real_of_int (2 ^ 52) \<le> x / ?u" by simp
  then have "(2::int) ^ 52 \<le> \<lfloor>x / ?u\<rfloor>" by (simp only: le_floor_iff)
  then have "(2::int) ^ 52 \<le> roundTiesToEven (x / ?u)"
    using roundTiesToEven_ge_floor [of "x / ?u"] by linarith
  then have "real_of_int (2 ^ 52) \<le> real_of_int (roundTiesToEven (x / ?u))" by linarith
  then have "2 ^ 52 * ?u \<le> of_int (roundTiesToEven (x / ?u)) * ?u"
    using u by (intro mult_right_mono) simp_all
  then have "2 powi ?e \<le> roundDouble x"
    using assms split by (simp add: roundDouble_def Let_def)
  moreover have "(1::real) \<le> 2 powi ?e" using e by (simp add: power_int_def)
  ultimately show ?thesis by linarith
qed

lemma roundDouble_zero: "roundDouble 0 = 0"
  by (simp add: roundDouble_def)

lemma roundDouble_13_10: "roundDouble (13 / 10) = 5854679515581645 / 4503599627370496"
  by code_simp

lemma calculateSM2_easeFactor:
  "easeFactor (calculateSM2 now q reps ef iv) =
     max (roundDouble (13 / 10)) (min (5 / 2) (newEF_sum ef q))"
  by (simp add: calculateSM2_def Let_def)

lemma calculateSM2_easeFactor_bounds:
  "roundDouble (13 / 10) \<le> easeFactor (calculateSM2 now q reps ef iv) \<and>
   easeFactor (calculateSM2 now q reps ef iv) \<le> 5 / 2"
  unfolding calculateSM2_easeFactor roundDouble_13_10 by (simp add: max_def min_def)



text \<open>
  Claim C2, as the specification states it, fails on the code in its last part. With a
  prior ease factor of 3.5 and quality 2 the card is reset, but the ease factor the code
  returns is 2.5, where step 1 of the specification, which has no ceiling, gives 3.18.
\<close>

theorem calculateSM2_incorrect_ease_counterexample:
  "(2::real) < 3 \<and>
   easeFactor (calculateSM2 0 2 3 (7 / 2) 16) = 5 / 2 \<and>
   spec_newEase (7 / 2) 2 = 159 / 50"
  by code_simp

text \<open>
  Claim C2, amended: for every prior state and every quality below 3 the scheduler
  returns repetitions 0 and interval 1, and the ease factor is still updated as step 1
  of the code updates it: the prior ease factor plus the delta, in double arithmetic,
  clamped below at 1.3 and above at 2.5.
\<close>

theorem calculateSM2_incorrect_resets:
  assumes "q < 3"
  shows "repetitions (calculateSM2 now q reps ef iv) = 0 \<and>
         interval (calculateSM2 now q reps ef iv) = 1 \<and>
         nextReviewDate (calculateSM2 now q reps ef iv) = addDays now 1 \<and>
         easeFactor (calculateSM2 now q reps ef iv) =
           max (roundDouble (13 / 10)) (min (5 / 2) (newEF_sum ef q))"
  using assms by (simp add: calculateSM2_def Let_def)

text \<open>
  Claim C2 (amended) at a concrete input: ease factor 2.5, interval 16, three
  repetitions, quality 2. The card is reset and its ease factor drops to the double that
  JavaScript prints as 2.1799999999999997.
\<close>

theorem calculateSM2_incorrect_resets_witness:
  "repetitions (calculateSM2 0 2 3 (5 / 2) 16) = 0 \<and>
   interval (calculateSM2 0 2 3 (5 / 2) 16) = 1 \<and>
   easeFactor (calculateSM2 0 2 3 (5 / 2) 16) =
     roundDouble (21799999999999997 / 10000000000000000)"
proof -
  have "max (roundDouble (13 / 10)) (min (5 / 2) (newEF_sum (5 / 2) 2)) =
        roundDouble (21799999999999997 / 10000000000000000)"
    by code_simp
  with calculateSM2_incorrect_resets [of 2 0 3 "5 / 2" 16] show ?thesis by simp
qed

text \<open>
  Claim C3, as the specification states it, fails on the code: with a prior interval
  of 0, two prior repetitions and quality 4 the new interval is
  \<^verbatim>\<open>Math.round(0 * 2.5)\<close>, which is 0. Nothing coerces it to 1.
\<close>

theorem calculateSM2_interval_zero_counterexample:
  "(3::real) \<le> 4 \<and> interval (calculateSM2 0 4 2 (5 / 2) 0) = 0 \<and>
   \<not> 1 \<le> interval (calculateSM2 0 4 2 (5 / 2) 0)"
  by code_simp

text \<open>
  Claim C3, amended: for every prior state and every quality of at least 3 the
  scheduler returns repetitions = prior repetitions + 1; the interval is 1 when that
  count is 1, 6 when it is 2, and otherwise the double product of the prior interval
  and the new ease factor, rounded half up, with no further coercion. That value is at
  least 1 whenever the prior interval is at least 1, and it is 0 when the prior interval
  is 0.
\<close>

theorem calculateSM2_correct_interval:
  assumes "3 \<le> q"
  shows "repetitions (calculateSM2 now q reps ef iv) = reps + 1 \<and>
         interval (calculateSM2 now q reps ef iv) =
           (if reps + 1 = 1 then 1
            else if reps + 1 = 2 then 6
            else \<lfloor>js_mul (of_int iv) (easeFactor (calculateSM2 now q reps ef iv)) + 1 / 2\<rfloor>) \<and>
         (1 \<le> iv \<longrightarrow> 1 \<le> interval (calculateSM2 now q reps ef iv)) \<and>
         (iv = 0 \<and> reps \<noteq> 0 \<and> reps \<noteq> 1 \<longrightarrow> interval (calculateSM2 now q reps ef iv) = 0)"
proof -
  let ?r = "calculateSM2 now q reps ef iv"
  have r: "repetitions ?r = reps + 1"
    using assms by (simp add: calculateSM2_def Let_def)
  have i: "interval ?r =
           (if reps + 1 = 1 then 1
            else if reps + 1 = 2 then 6
            else \<lfloor>js_mul (of_int iv) (easeFactor ?r) + 1 / 2\<rfloor>)"
    using assms by (simp add: calculateSM2_def Math_round_def Let_def)
  have "1 \<le> \<lfloor>js_mul (of_int iv) (easeFactor ?r) + 1 / 2\<rfloor>" if "1 \<le> iv"
  proof -
    have "1 \<le> easeFactor ?r"
      using calculateSM2_easeFactor_bounds [of now q reps ef iv]
      unfolding roundDouble_13_10 by simp
    moreover have "1 \<le> real_of_int iv" using that by simp
    ultimately have "1 * 1 \<le> real_of_int iv * easeFactor ?r"
      by (intro mult_mono) simp_all
    then have "1 \<le> js_mul (of_int iv) (easeFactor ?r)"
      unfolding js_mul_def by (intro roundDouble_ge_one) simp
    then have "(1::real) \<le> js_mul (of_int iv) (easeFactor ?r) + 1 / 2" by simp
    then show ?thesis by (simp add: le_floor_iff)
  qed
  moreover have "interval ?r = 0" if "iv = 0" and "reps \<noteq> 0" and "reps \<noteq> 1"
    using that i by (simp add: js_mul_def roundDouble_zero)
  ultimately show ?thesis using r i by simp
qed

text \<open>
  Claim C3 (amended) at concrete inputs. A third successful review with quality 4 of a
  card at ease factor 2.5 gives interval 15 from interval 6, and 0 from interval 0. A
  third successful review with quality 3 of a card at ease factor 2.36 and interval 25
  gives 55: the new ease factor is the double just below 2.22, and 25 times it is the
  double just below 55.5.
\<close>

theorem calculateSM2_correct_interval_witness:
  "repetitions (calculateSM2 0 4 2 (5 / 2) 6) = 3 \<and>
   interval (calculateSM2 0 4 2 (5 / 2) 6) = 15 \<and>
   1 \<le> interval (calculateSM2 0 4 2 (5 / 2) 6) \<and>
   interval (calculateSM2 0 4 2 (5 / 2) 0) = 0 \<and>
   interval (calculateSM2 0 3 2 (roundDouble (236 / 100)) 25) = 55"
proof -
  have a: "interval (calculateSM2 0 4 2 (5 / 2) 6) = 15"
    and b: "interval (calculateSM2 0 3 2 (roundDouble (236 / 100)) 25) = 55"
    by code_simp+
  from calculateSM2_correct_interval [of 4 0 2 "5 / 2" 6]
    calculateSM2_correct_interval [of 4 0 2 "5 / 2" 0] a b
  show ?thesis by simp
qed

section \<open>Facts about the review handler\<close>

lemmas tx_defs = tx_reviewSchedule_update_def tx_reviewHistory_create_def
  tx_dailyStat_upsert_def tx_studyStreak_findUnique_def tx_studyStreak_write_def

lemma calculateSM2_example:
  "calculateSM2 0 4 0 (5 / 2) 1 =
     \<lparr>easeFactor = 5 / 2, interval = 1, repetitions = 1, nextReviewDate = 86400000\<rparr>"
  by code_simp

lemma reviewTx_refused:
  assumes "\<not> ok op"
  shows "\<exists>e. reviewTx ok uid now req schedule newSchedule d = Inl e"
  using assms
  by (cases op) (auto simp: reviewTx_def tx_defs Let_def split: sum.splits option.splits)

lemma POST_BadRequest_iff:
  "fst (POST ok (Some uid) now req d) = BadRequest_400 \<longleftrightarrow> quality req < 0 \<or> quality req > 5"
  by (auto simp: POST_def Let_def split: option.splits sum.splits prod.splits)

lemma POST_BadRequest_db:
  "quality req < 0 \<or> quality req > 5 \<Longrightarrow> snd (POST ok user now req d) = d"
  by (auto simp: POST_def split: option.splits)

lemma POST_NotFound:
  "0 \<le> quality req \<Longrightarrow> quality req \<le> 5 \<Longrightarrow> reviewSchedules d (flashcardId req) = None \<Longrightarrow>
   POST ok (Some uid) now req d = (NotFound_404, d)"
  by (simp add: POST_def)

lemma POST_snd_cases:
  "snd (POST ok user now req d) = d \<or>
   (\<exists>uid schedule r. user = Some uid \<and> reviewSchedules d (flashcardId req) = Some schedule \<and>
      reviewTx ok uid now req schedule
        (calculateSM2 now (quality req) (rs_repetitions schedule)
           (rs_easeFactor schedule) (rs_interval schedule)) d
        = Inr (r, snd (POST ok user now req d)))"
  by (auto simp: POST_def transaction_def Let_def split: option.splits sum.splits prod.splits)

lemma POST_Ok_committed:
  assumes "fst (POST ok (Some uid) now req d) = Ok_200 s"
  shows "\<exists>schedule. reviewSchedules d (flashcardId req) = Some schedule \<and>
      reviewTx ok uid now req schedule
        (calculateSM2 now (quality req) (rs_repetitions schedule)
           (rs_easeFactor schedule) (rs_interval schedule)) d
        = Inr (s, snd (POST ok (Some uid) now req d))"
  using assms
  by (auto simp: POST_def transaction_def Let_def split: option.splits sum.splits prod.splits if_splits)

lemma reviewTx_cardsLearned:
  assumes "reviewTx ok uid now req schedule newSchedule d = Inr (r, d')"
  shows "(case dailyStats d' k of
            None \<Rightarrow> dailyStats d k = None
          | Some r' \<Rightarrow>
              cardsLearned r' = (case dailyStats d k of None \<Rightarrow> 0 | Some r0 \<Rightarrow> cardsLearned r0))"
  using assms
  by (auto simp: reviewTx_def tx_defs Let_def split: sum.splits option.splits if_splits)

lemma reviewTx_dailyStat_row:
  assumes "reviewTx ok uid now req schedule newSchedule d = Inr (r, d')"
  shows "dailyStats d' (uid, startOfDay now) =
     Some (case dailyStats d (uid, startOfDay now) of
             None \<Rightarrow>
               \<lparr>ds_userId = uid, ds_date = startOfDay now, cardsReviewed = 1,
                cardsLearned = 0, correctAnswers = (if quality req \<ge> 3 then 1 else 0),
                totalAnswers = 1, studyTimeMinutes = studyMinutes (responseTimeSeconds req)\<rparr>
           | Some r0 \<Rightarrow>
               r0\<lparr>cardsReviewed := cardsReviewed r0 + 1,
                  correctAnswers := correctAnswers r0 + (if quality req \<ge> 3 then 1 else 0),
                  totalAnswers := totalAnswers r0 + 1,
                  studyTimeMinutes := studyTimeMinutes r0 + studyMinutes (responseTimeSeconds req)\<rparr>)"
  using assms
  by (auto simp: reviewTx_def tx_defs Let_def split: sum.splits option.splits if_splits)

lemma startOfDay_bounds: "t - msPerDay < startOfDay t \<and> startOfDay t \<le> t"
  by (simp add: startOfDay_def msPerDay_def)

lemma newCurrentStreak_same_day:
  "lastStudyDate s = Some today \<Longrightarrow> newCurrentStreak s today = currentStreak s"
  using startOfDay_bounds [of today]
  by (simp add: newCurrentStreak_def addDays_def Let_def)

lemma dueCards_is_answer: "dueCards_answer d uid now (dueCards d uid now)"
  by (simp add: dueCards_answer_def dueCards_def)

text \<open>
  Claim C4: the four writes of a review are one atomic unit. Whichever operation of the
  transaction the store refuses, the handler leaves the whole store as it found it (the
  schedule, the history, the daily aggregate and the streak alike), and answers with the
  generic failure, never with success.
\<close>

theorem POST_atomic_rollback:
  assumes "\<not> ok op"
  shows "snd (POST ok user now req d) = d \<and>
         (\<forall>s. fst (POST ok user now req d) \<noteq> Ok_200 s) \<and>
         (user \<noteq> None \<and> 0 \<le> quality req \<and> quality req \<le> 5 \<and>
          reviewSchedules d (flashcardId req) \<noteq> None
            \<longrightarrow> fst (POST ok user now req d) = InternalServerError_500)"
proof -
  have tx: "\<exists>e. transaction (reviewTx ok uid now req schedule newSchedule) d = (Inl e, d)"
    for uid schedule newSchedule
    using assms reviewTx_refused [of ok op uid now req schedule newSchedule d]
    by (auto simp: transaction_def)
  show ?thesis
  proof (cases user)
    case None
    then show ?thesis by (simp add: POST_def)
  next
    case (Some uid)
    show ?thesis
    proof (cases "quality req < 0 \<or> quality req > 5")
      case True
      then show ?thesis using Some by (auto simp: POST_def)
    next
      case False
      show ?thesis
      proof (cases "reviewSchedules d (flashcardId req)")
        case None
        then show ?thesis using \<open>user = Some uid\<close> False by (auto simp: POST_def)
      next
        case (Some schedule)
        obtain e where
          "transaction (reviewTx ok uid now req schedule
             (calculateSM2 now (quality req) (rs_repetitions schedule)
                (rs_easeFactor schedule) (rs_interval schedule))) d = (Inl e, d)"
          using tx by blast
        then show ?thesis using Some \<open>user = Some uid\<close> False
          by (auto simp: POST_def Let_def)
      qed
    qed
  qed
qed

text \<open>
  Claim C4 at a concrete input: the store refuses the last write, the streak, after
  the schedule, the history and the daily aggregate were written inside the
  transaction. The store afterwards is the store before, and the answer is 500.
\<close>

theorem POST_atomic_rollback_witness:
  "snd (POST (\<lambda>op. op \<noteq> WriteStreak) (Some 1) 0 (example_request 4) example_db) = example_db \<and>
   fst (POST (\<lambda>op. op \<noteq> WriteStreak) (Some 1) 0 (example_request 4) example_db)
     = InternalServerError_500"
  using POST_atomic_rollback
    [of "\<lambda>op. op \<noteq> WriteStreak" WriteStreak "Some 1" 0 "example_request 4" example_db]
  by (simp add: example_request_def example_db_def)

text \<open>
  Claim C5 on the code: user 2 submits a review of flashcard 1, which belongs to user 1
  and so does its schedule. The handler looks the schedule up by flashcardId alone, so
  it answers 200 and overwrites user 1's schedule, where the claim asks for NotFound
  with nothing modified.
\<close>

theorem POST_other_users_card_accepted:
  "rs_userId example_schedule = 1 \<and>
   fst (POST (\<lambda>op. True) (Some 2) 0 (example_request 4) example_db) =
     Ok_200 (example_schedule\<lparr>rs_repetitions := 1, rs_nextReviewDate := 86400000,
                              rs_lastReviewedAt := Some 0\<rparr>) \<and>
   reviewSchedules (snd (POST (\<lambda>op. True) (Some 2) 0 (example_request 4) example_db)) 1 =
     Some (example_schedule\<lparr>rs_repetitions := 1, rs_nextReviewDate := 86400000,
                              rs_lastReviewedAt := Some 0\<rparr>)"
  by (simp add: POST_def transaction_def reviewTx_def tx_defs reviewHistory_data_def
      Int_argument_def Let_def example_db_def example_request_def example_schedule_def
      calculateSM2_example)

text \<open>
  Claim C6: a review submitted by an authenticated user is answered with 400 (invalid
  input) exactly when its quality lies outside the closed range from 0 to 5, and then
  the store is unchanged.
\<close>

theorem POST_quality_validation:
  assumes "user = Some uid"
  shows "(fst (POST ok user now req d) = BadRequest_400 \<longleftrightarrow> quality req < 0 \<or> quality req > 5) \<and>
         (quality req < 0 \<or> quality req > 5 \<longrightarrow> snd (POST ok user now req d) = d)"
  using assms POST_BadRequest_iff [of ok uid now req d] POST_BadRequest_db [of req ok user now d]
  by blast

text \<open>
  Claim C6 at concrete inputs: quality 7 is rejected and the store is untouched;
  quality 5, the upper end of the range, is not rejected as invalid.
\<close>

theorem POST_quality_validation_witness:
  "fst (POST (\<lambda>op. True) (Some 1) 0 (example_request 7) example_db) = BadRequest_400 \<and>
   snd (POST (\<lambda>op. True) (Some 1) 0 (example_request 7) example_db) = example_db \<and>
   fst (POST (\<lambda>op. True) (Some 1) 0 (example_request 5) example_db) \<noteq> BadRequest_400"
  using POST_quality_validation [of "Some 1" 1 "\<lambda>op. True" 0 "example_request 7" example_db]
    POST_quality_validation [of "Some 1" 1 "\<lambda>op. True" 0 "example_request 5" example_db]
  by (simp add: example_request_def)

text \<open>
  Claim C7, as the specification states it, fails on the code. The query orders by
  nextReviewDate alone. In a store where cards 2 and 1 of user 1 fall due at the same
  instant and card 2 is stored first, the list with card 2 before card 1 is an answer
  to the query (it is the one a stable sort of the table gives), and it does not break
  the tie by card identifier.
\<close>

theorem dueCards_ties_counterexample:
  "dueCards_answer tied_db 1 100 [\<lparr>fc_id = 2, fc_userId = 1\<rparr>, \<lparr>fc_id = 1, fc_userId = 1\<rparr>] \<and>
   dueCards tied_db 1 100 = [\<lparr>fc_id = 2, fc_userId = 1\<rparr>, \<lparr>fc_id = 1, fc_userId = 1\<rparr>] \<and>
   \<not> spec_dueOrder tied_db [\<lparr>fc_id = 2, fc_userId = 1\<rparr>, \<lparr>fc_id = 1, fc_userId = 1\<rparr>]"
  by (simp add: dueCards_answer_def dueCards_def dueWhere_def dueOrderKey_def spec_dueOrder_def
      tied_db_def example_schedule_def)

text \<open>
  Claim C7, amended: for every user and every instant the query has an answer, and
  every answer holds exactly the cards owned by the user that have a schedule whose
  nextReviewDate is at or before that instant, each as often as the table holds it,
  in ascending order of nextReviewDate. The order among cards with equal
  nextReviewDate is left to the store. The query only reads.
\<close>

theorem dueCards_answer_characterised:
  "dueCards_answer d uid now (dueCards d uid now) \<and>
   (\<forall>res. dueCards_answer d uid now res \<longrightarrow>
      set res = {c \<in> set (flashcards d). fc_userId c = uid \<and>
                   (\<exists>s. reviewSchedules d (fc_id c) = Some s \<and> rs_nextReviewDate s \<le> now)} \<and>
      (\<forall>c. count (mset res) c =
             (if dueWhere d uid now c then count (mset (flashcards d)) c else 0)) \<and>
      sorted_wrt (\<lambda>a b. dueOrderKey d a \<le> dueOrderKey d b) res)"
proof -
  have "set res = {c \<in> set (flashcards d). fc_userId c = uid \<and>
                   (\<exists>s. reviewSchedules d (fc_id c) = Some s \<and> rs_nextReviewDate s \<le> now)}"
    if "dueCards_answer d uid now res" for res
  proof -
    from that have "set res = set (filter (dueWhere d uid now) (flashcards d))"
      unfolding dueCards_answer_def by (metis set_mset_mset)
    then show ?thesis by (auto simp: dueWhere_def split: option.splits)
  qed
  moreover have "count (mset res) c =
      (if dueWhere d uid now c then count (mset (flashcards d)) c else 0)"
    if "dueCards_answer d uid now res" for res c
    using that by (simp add: dueCards_answer_def)
  moreover have "sorted_wrt (\<lambda>a b. dueOrderKey d a \<le> dueOrderKey d b) res"
    if "dueCards_answer d uid now res" for res
    using that by (simp add: dueCards_answer_def sorted_map)
  ultimately show ?thesis using dueCards_is_answer by blast
qed

text \<open>
  Claim C7 (amended) at a concrete input: in the store with the tie, the list with
  card 1 before card 2 is an answer as well, and it holds exactly the due cards of
  user 1.
\<close>

theorem dueCards_answer_characterised_witness:
  "dueCards_answer tied_db 1 100 [\<lparr>fc_id = 1, fc_userId = 1\<rparr>, \<lparr>fc_id = 2, fc_userId = 1\<rparr>] \<and>
   set [\<lparr>fc_id = 1, fc_userId = 1\<rparr>, \<lparr>fc_id = 2, fc_userId = 1\<rparr>] =
     {c \<in> set (flashcards tied_db). fc_userId c = 1 \<and>
        (\<exists>s. reviewSchedules tied_db (fc_id c) = Some s \<and> rs_nextReviewDate s \<le> 100)}"
proof -
  have "dueCards_answer tied_db 1 100 [\<lparr>fc_id = 1, fc_userId = 1\<rparr>, \<lparr>fc_id = 2, fc_userId = 1\<rparr>]"
    by (simp add: dueCards_answer_def dueWhere_def dueOrderKey_def tied_db_def
        example_schedule_def)
  with dueCards_answer_characterised [of tied_db 1 100] show ?thesis by blast
qed

text \<open>
  Claim C8: the streak update is idempotent within a day. Fed the row it has just
  written for \<open>today\<close>, it writes the same row again: currentStreak and
  longestStreak (and lastStudyDate) stay as they are, whatever the row was before the
  first update, and also when there was none.
\<close>

theorem studyStreakData_idempotent:
  "studyStreakData uid today (Some (studyStreakData uid today found)) =
     studyStreakData uid today found"
  by (cases found) (simp_all add: studyStreakData_def newCurrentStreak_same_day)


text \<open>
  Claim C10: the review handler never changes cardsLearned. After any request, whatever
  its outcome, every DailyStat row holds the cardsLearned it held before, a row that was
  not there before holds 0, and no row disappears. When the review succeeds, the row of
  the user and the day is the created row (cardsLearned 0) if there was none, and
  otherwise the old row with only cardsReviewed, correctAnswers, totalAnswers and
  studyTimeMinutes incremented.
\<close>

theorem POST_cardsLearned_unchanged:
  "(case dailyStats (snd (POST ok user now req d)) k of
      None \<Rightarrow> dailyStats d k = None
    | Some r' \<Rightarrow> cardsLearned r' = (case dailyStats d k of None \<Rightarrow> 0 | Some r \<Rightarrow> cardsLearned r)) \<and>
   (user = Some uid \<and> fst (POST ok user now req d) = Ok_200 s \<longrightarrow>
      dailyStats (snd (POST ok user now req d)) (uid, startOfDay now) =
        Some (case dailyStats d (uid, startOfDay now) of
                None \<Rightarrow>
                  \<lparr>ds_userId = uid, ds_date = startOfDay now, cardsReviewed = 1,
                   cardsLearned = 0, correctAnswers = (if quality req \<ge> 3 then 1 else 0),
                   totalAnswers = 1,
                   studyTimeMinutes = studyMinutes (responseTimeSeconds req)\<rparr>
              | Some r \<Rightarrow>
                  r\<lparr>cardsReviewed := cardsReviewed r + 1,
                    correctAnswers := correctAnswers r + (if quality req \<ge> 3 then 1 else 0),
                    totalAnswers := totalAnswers r + 1,
                    studyTimeMinutes :=
                      studyTimeMinutes r + studyMinutes (responseTimeSeconds req)\<rparr>))"
proof -
  have frame: "(case dailyStats (snd (POST ok user now req d)) k of
      None \<Rightarrow> dailyStats d k = None
    | Some r' \<Rightarrow> cardsLearned r' = (case dailyStats d k of None \<Rightarrow> 0 | Some r \<Rightarrow> cardsLearned r))"
    using POST_snd_cases [of ok user now req d]
  proof
    assume "snd (POST ok user now req d) = d"
    then show ?thesis by (simp split: option.splits)
  next
    assume "\<exists>uid schedule r. user = Some uid \<and>
        reviewSchedules d (flashcardId req) = Some schedule \<and>
        reviewTx ok uid now req schedule
          (calculateSM2 now (quality req) (rs_repetitions schedule)
             (rs_easeFactor schedule) (rs_interval schedule)) d
          = Inr (r, snd (POST ok user now req d))"
    then show ?thesis using reviewTx_cardsLearned by blast
  qed
  have row: "dailyStats (snd (POST ok user now req d)) (uid, startOfDay now) =
        Some (case dailyStats d (uid, startOfDay now) of
                None \<Rightarrow>
                  \<lparr>ds_userId = uid, ds_date = startOfDay now, cardsReviewed = 1,
                   cardsLearned = 0, correctAnswers = (if quality req \<ge> 3 then 1 else 0),
                   totalAnswers = 1,
                   studyTimeMinutes = studyMinutes (responseTimeSeconds req)\<rparr>
              | Some r \<Rightarrow>
                  r\<lparr>cardsReviewed := cardsReviewed r + 1,
                    correctAnswers := correctAnswers r + (if quality req \<ge> 3 then 1 else 0),
                    totalAnswers := totalAnswers r + 1,
                    studyTimeMinutes :=
                      studyTimeMinutes r + studyMinutes (responseTimeSeconds req)\<rparr>)"
    if "user = Some uid" and "fst (POST ok user now req d) = Ok_200 s"
  proof -
    from that POST_Ok_committed [of ok uid now req d s] obtain schedule where
      "reviewTx ok uid now req schedule
        (calculateSM2 now (quality req) (rs_repetitions schedule)
           (rs_easeFactor schedule) (rs_interval schedule)) d
        = Inr (s, snd (POST ok user now req d))"
      by auto
    then show ?thesis by (rule reviewTx_dailyStat_row)
  qed
  from frame row show ?thesis by blast
qed

text \<open>
  Claim C10 at a concrete input: a review on a day whose row already counts 5 reviews
  and 3 learned cards. Afterwards the row counts 6 reviews and still 3 learned cards.
\<close>

theorem POST_cardsLearned_unchanged_witness:
  "dailyStats (snd (POST (\<lambda>op. True) (Some 1) 0 (example_request 4) example_db_stat)) (1, 0) =
     Some \<lparr>ds_userId = 1, ds_date = 0, cardsReviewed = 6, cardsLearned = 3,
           correctAnswers = 5, totalAnswers = 6, studyTimeMinutes = 9\<rparr>"
proof -
  have "fst (POST (\<lambda>op. True) (Some 1) 0 (example_request 4) example_db_stat) =
     Ok_200 (example_schedule\<lparr>rs_repetitions := 1, rs_nextReviewDate := 86400000,
                              rs_lastReviewedAt := Some 0\<rparr>)"
    by (simp add: POST_def transaction_def reviewTx_def tx_defs reviewHistory_data_def
        Int_argument_def Let_def example_db_stat_def example_request_def example_schedule_def
        calculateSM2_example)
  with POST_cardsLearned_unchanged
    [where ok = "\<lambda>op. True" and user = "Some 1" and now = 0 and req = "example_request 4"
       and d = example_db_stat and k = "(1, 0)" and uid = 1
       and s = "example_schedule\<lparr>rs_repetitions := 1, rs_nextReviewDate := 86400000,
                              rs_lastReviewedAt := Some 0\<rparr>"]
  show ?thesis
    by (simp add: example_db_stat_def example_stat_def example_request_def
        startOfDay_def studyMinutes_def)
qed

end
